theory Spec2Isabelle
  imports Main
begin

section \<open>The search and fetch tools of mcp_server.py\<close>

text \<open>
  The server registers two tools, \<open>search\<close> and \<open>fetch\<close>, inside \<open>create_server\<close>.
  Both build their answer from the argument alone; the only effect besides the
  return value (or the raised exception) is a call of \<open>logger.info\<close>.

  A Python \<open>str\<close> is modelled as a \<open>string\<close>, one \<open>char\<close> per code point, which
  covers the code points below 256. The log is the list of the messages passed to
  \<open>logger.info\<close>, oldest first. A tool call takes the log and returns its outcome
  together with the new log; a raised exception is the outcome \<open>Inl\<close>.
\<close>

subsection \<open>Data\<close>

type_synonym log = "string list"

text \<open>The only exception raised in the file is \<open>ValueError\<close>, with its message.\<close>

datatype error = ValueError string

text \<open>One entry of the list under the key \<open>results\<close> (the dict built at lines 56-62).\<close>

record search_result =
  sr_id :: string
  sr_title :: string
  sr_text :: string
  sr_url :: string

text \<open>The dict returned by \<open>search\<close>: the single key \<open>results\<close>.\<close>

record search_response =
  results :: "search_result list"

text \<open>
  The dict returned by \<open>fetch\<close> (lines 97-106). The nested dict \<open>metadata\<close> is an
  association list in insertion order.
\<close>

record document =
  doc_id :: string
  doc_title :: string
  doc_text :: string
  doc_url :: string
  doc_metadata :: "(string \<times> string) list"

subsection \<open>The string operations of Python that the tools use\<close>

text \<open>
  \<open>str.isspace\<close> on one code point below 256: tab to carriage return, the four
  separators 28-31, the space, NEL (133) and the no-break space (160).
\<close>

definition isspace :: "char \<Rightarrow> bool" where
  "isspace c =
     (let n = (of_char c :: nat)
      in (9 \<le> n \<and> n \<le> 13) \<or> (28 \<le> n \<and> n \<le> 32) \<or> n = 133 \<or> n = 160)"

text \<open>\<open>str.strip()\<close> with no argument: whitespace is removed at both ends.\<close>

definition strip :: "string \<Rightarrow> string" where
  "strip s = rev (dropWhile isspace (rev (dropWhile isspace s)))"

text \<open>
  \<open>str.title()\<close> is a builtin whose result depends on Python's tables of cased
  characters; \<open>search\<close> below takes it as a parameter, as it takes \<open>hash\<close>. On a
  string of ASCII characters it is the function \<open>ascii_title\<close>: a letter that
  follows a character that is not a letter (or starts the string) is put in
  upper case, a letter that follows a letter in lower case. The flag says whether
  the previous character was a letter. \<open>ascii_title\<close> is what the examples on
  ASCII queries run \<open>search\<close> with; it says nothing about other code points.
\<close>

definition islower :: "char \<Rightarrow> bool" where
  "islower c = (let n = (of_char c :: nat) in 97 \<le> n \<and> n \<le> 122)"

definition isupper :: "char \<Rightarrow> bool" where
  "isupper c = (let n = (of_char c :: nat) in 65 \<le> n \<and> n \<le> 90)"

definition toupper :: "char \<Rightarrow> char" where
  "toupper c = (if islower c then char_of ((of_char c :: nat) - 32) else c)"

definition tolower :: "char \<Rightarrow> char" where
  "tolower c = (if isupper c then char_of ((of_char c :: nat) + 32) else c)"

fun ascii_title_from :: "bool \<Rightarrow> string \<Rightarrow> string" where
  "ascii_title_from previous_is_cased [] = []"
| "ascii_title_from previous_is_cased (c # cs) =
     (if islower c then
        (if previous_is_cased then c else toupper c) # ascii_title_from True cs
      else if isupper c then
        (if previous_is_cased then tolower c else c) # ascii_title_from True cs
      else c # ascii_title_from False cs)"

definition ascii_title :: "string \<Rightarrow> string" where
  "ascii_title s = ascii_title_from False s"

text \<open>The decimal numeral of an integer, as \<open>str\<close> and an f-string field print it.\<close>

definition digit_char :: "nat \<Rightarrow> char" where
  "digit_char d = char_of (48 + d)"

function str_nat :: "nat \<Rightarrow> string" where
  "str_nat n = (if n < 10 then [digit_char n] else str_nat (n div 10) @ [digit_char (n mod 10)])"
  by pat_completeness auto
termination
  by (relation "measure (\<lambda>n. n)") auto

declare str_nat.simps [simp del]

definition str_int :: "int \<Rightarrow> string" where
  "str_int i = (if i < 0 then CHR ''-'' # str_nat (nat (- i)) else str_nat (nat i))"

subsection \<open>The two tools\<close>

text \<open>
  \<open>logger.info(msg)\<close>: the level of the root logger is INFO (line 14), so the
  message is emitted.
\<close>

definition logger_info :: "string \<Rightarrow> log \<Rightarrow> log" where
  "logger_info msg lg = lg @ [msg]"

text \<open>
  \<open>search\<close> (lines 34-70). Two builtins are parameters. \<open>hash\<close> on strings is
  salted when the interpreter starts, so it is one function during a run of the
  server and another one in the next run; the code reads it only through
  \<open>hash(query) % 10000\<close>. Python's \<open>%\<close> with a positive right operand is the
  \<open>mod\<close> of \<open>int\<close>: the result is never negative. \<open>str_title\<close> stands for
  \<open>str.title\<close>.
\<close>

definition search ::
  "(string \<Rightarrow> int) \<Rightarrow> (string \<Rightarrow> string) \<Rightarrow> string \<Rightarrow> log \<Rightarrow> (error + search_response) \<times> log" where
  "search hash str_title query lg =
     (if query = [] \<or> strip query = [] then (Inr \<lparr>results = []\<rparr>, lg)
      else
        let results0 = [];
            mockup_id = ''mock@@@'' @ str_int (hash query mod 10000);
            result = \<lparr>sr_id = mockup_id,
                      sr_title = ''News Article on '' @ str_title query,
                      sr_text = ''Full text about the topic: '' @ query,
                      sr_url = ''https://mockup-url.org/'' @ mockup_id\<rparr>;
            results1 = results0 @ [result];
            lg1 = logger_info
                    (''search returned '' @ str_int (int (length results1)) @ '' results'') lg
        in (Inr \<lparr>results = results1\<rparr>, lg1))"

text \<open>\<open>fetch\<close> (lines 74-109). \<open>not id\<close> holds of the empty string only.\<close>

definition fetch :: "string \<Rightarrow> log \<Rightarrow> (error + document) \<times> log" where
  "fetch ident lg =
     (if ident = [] then (Inl (ValueError ''Document ID is required''), lg)
      else
        let lg1 = logger_info (''Fetching content for file ID: '' @ ident) lg;
            result = \<lparr>doc_id = ident,
                      doc_title = ''Retrieved Document'',
                      doc_text = ''Full document content for ID: '' @ ident,
                      doc_url = ''https://platform.openai.com/storage/files/'' @ ident,
                      doc_metadata = [(''source'', ''Mockup Press''),
                                      (''retrieved_by'', ''Somebody'')]\<rparr>;
            lg2 = logger_info (''Fetched file: '' @ ident) lg1
        in (Inr result, lg2))"

section \<open>Properties\<close>

subsection \<open>Helper facts\<close>

lemma strip_empty_iff: "strip s = [] \<longleftrightarrow> (\<forall>c \<in> set s. isspace c)"
proof
  assume "strip s = []"
  then have all: "\<forall>c \<in> set (dropWhile isspace s). isspace c"
    by (simp add: strip_def)
  have "dropWhile isspace s = []"
  proof (rule ccontr)
    assume ne: "dropWhile isspace s \<noteq> []"
    then have "\<not> isspace (hd (dropWhile isspace s))"
      by (rule hd_dropWhile)
    moreover from ne have "hd (dropWhile isspace s) \<in> set (dropWhile isspace s)"
      by simp
    ultimately show False
      using all by blast
  qed
  then show "\<forall>c \<in> set s. isspace c"
    by simp
next
  assume "\<forall>c \<in> set s. isspace c"
  then have d: "dropWhile isspace s = []"
    using dropWhile_eq_Nil_conv [of isspace s] by blast
  show "strip s = []"
    unfolding strip_def d by simp
qed

lemma fetch_nonempty:
  "ident \<noteq> [] \<Longrightarrow>
   fetch ident lg =
     (Inr \<lparr>doc_id = ident,
           doc_title = ''Retrieved Document'',
           doc_text = ''Full document content for ID: '' @ ident,
           doc_url = ''https://platform.openai.com/storage/files/'' @ ident,
           doc_metadata = [(''source'', ''Mockup Press''), (''retrieved_by'', ''Somebody'')]\<rparr>,
      lg @ [''Fetching content for file ID: '' @ ident, ''Fetched file: '' @ ident])"
  by (simp add: fetch_def logger_info_def)

lemma strip_nonempty_arg: "strip query \<noteq> [] \<Longrightarrow> query \<noteq> []"
  by (auto simp: strip_def)

lemma search_blank:
  "\<forall>c \<in> set query. isspace c \<Longrightarrow> search hash str_title query lg = (Inr \<lparr>results = []\<rparr>, lg)"
  using strip_empty_iff [of query] by (simp add: search_def)

lemma search_nonblank:
  "strip query \<noteq> [] \<Longrightarrow>
   search hash str_title query lg =
     (Inr \<lparr>results =
            [\<lparr>sr_id = ''mock@@@'' @ str_int (hash query mod 10000),
              sr_title = ''News Article on '' @ str_title query,
              sr_text = ''Full text about the topic: '' @ query,
              sr_url = ''https://mockup-url.org/'' @ ''mock@@@'' @ str_int (hash query mod 10000)\<rparr>]\<rparr>,
      lg @ [''search returned '' @ str_int 1 @ '' results''])"
  using strip_nonempty_arg [of query] by (simp add: search_def logger_info_def Let_def)

lemma search_results_cases:
  assumes "search hash str_title query lg = (Inr resp, lg')"
  shows "results resp = [] \<or>
         results resp =
           [\<lparr>sr_id = ''mock@@@'' @ str_int (hash query mod 10000),
             sr_title = ''News Article on '' @ str_title query,
             sr_text = ''Full text about the topic: '' @ query,
             sr_url = ''https://mockup-url.org/'' @ ''mock@@@'' @ str_int (hash query mod 10000)\<rparr>]"
proof (cases "strip query = []")
  case True
  then have "search hash str_title query lg = (Inr \<lparr>results = []\<rparr>, lg)"
    by (simp add: search_def)
  with assms have "resp = \<lparr>results = []\<rparr>"
    by simp
  then show ?thesis
    by simp
next
  case False
  from search_nonblank [OF False, of hash str_title lg] assms show ?thesis
    by auto
qed

lemma digit_char_values:
  "digit_char 0 = CHR ''0''" "digit_char (Suc 0) = CHR ''1''" "digit_char 2 = CHR ''2''"
  "digit_char 3 = CHR ''3''" "digit_char 4 = CHR ''4''" "digit_char 5 = CHR ''5''"
  "digit_char 6 = CHR ''6''" "digit_char 7 = CHR ''7''" "digit_char 8 = CHR ''8''"
  "digit_char 9 = CHR ''9''"
  by code_simp+

lemma digit_char_decimal:
  assumes "d < 10"
  shows "digit_char d \<in> set ''0123456789''"
proof -
  from assms have "d = 0 \<or> d = 1 \<or> d = 2 \<or> d = 3 \<or> d = 4 \<or> d = 5 \<or> d = 6 \<or> d = 7
      \<or> d = 8 \<or> d = 9"
    by arith
  then show ?thesis
    by (elim disjE) (simp_all add: digit_char_values)
qed

lemma str_nat_decimal: "list_all (\<lambda>c. c \<in> set ''0123456789'') (str_nat n)"
proof (induction n rule: str_nat.induct)
  case (1 n)
  show ?case
  proof (cases "n < 10")
    case True
    with digit_char_decimal [of n] show ?thesis
      by (subst str_nat.simps) simp
  next
    case False
    have "n mod 10 < 10"
      by simp
    from digit_char_decimal [OF this] "1.IH" [OF False] False show ?thesis
      by (subst str_nat.simps) simp
  qed
qed

lemma str_int_decimal:
  assumes "0 \<le> i"
  shows "list_all (\<lambda>c. c \<in> set ''0123456789'') (str_int i)"
proof -
  from assms have "str_int i = str_nat (nat i)"
    by (simp add: str_int_def)
  then show ?thesis
    using str_nat_decimal [of "nat i"] by (simp only:)
qed

subsection \<open>Claims\<close>

text \<open>
  C4. \<open>fetch\<close> called with the empty string fails with \<open>ValueError\<close>
  (the spec's InvalidArgument), whatever the log was. The log comes back as it
  was: the exception is raised before the first \<open>logger.info\<close> of \<open>fetch\<close> and so
  before the response dict is built.
\<close>

theorem fetch_empty_id_fails:
  "fetch [] lg = (Inl (ValueError ''Document ID is required''), lg)"
  by (simp add: fetch_def)

text \<open>
  C1. Every identifier in the results of a \<open>search\<close> call can be fetched: a later
  \<open>fetch\<close> of it, whatever has been logged in between, does not raise and returns
  a document whose \<open>id\<close> is that identifier. (The identifier is never empty, and
  \<open>fetch\<close> accepts every identifier that is not empty.)
\<close>

theorem search_ids_fetchable:
  assumes "search hash str_title query lg = (Inr resp, lg')"
    and "r \<in> set (results resp)"
  shows "\<exists>d lg''. fetch (sr_id r) lg2 = (Inr d, lg'') \<and> doc_id d = sr_id r"
proof -
  from search_results_cases [OF assms(1)] assms(2)
  have "sr_id r = ''mock@@@'' @ str_int (hash query mod 10000)"
    by auto
  then have "sr_id r \<noteq> []"
    by simp
  from fetch_nonempty [OF this, of lg2] show ?thesis
    by simp
qed

theorem search_ids_fetchable_witness:
  "search (\<lambda>_. 12345) ascii_title ''cats'' []
     = (Inr \<lparr>results = [\<lparr>sr_id = ''mock@@@2345'',
                          sr_title = ''News Article on Cats'',
                          sr_text = ''Full text about the topic: cats'',
                          sr_url = ''https://mockup-url.org/mock@@@2345''\<rparr>]\<rparr>,
        [''search returned 1 results''])
   \<and> (\<exists>d lg''. fetch ''mock@@@2345'' [''search returned 1 results''] = (Inr d, lg'')
          \<and> doc_id d = ''mock@@@2345'')"
proof -
  let ?r = "\<lparr>sr_id = ''mock@@@2345'',
             sr_title = ''News Article on Cats'',
             sr_text = ''Full text about the topic: cats'',
             sr_url = ''https://mockup-url.org/mock@@@2345''\<rparr>"
  have h1: "search (\<lambda>_. 12345) ascii_title ''cats'' []
              = (Inr \<lparr>results = [?r]\<rparr>, [''search returned 1 results''])"
    by code_simp
  have h2: "?r \<in> set (results \<lparr>results = [?r]\<rparr>)"
    by simp
  from search_ids_fetchable [OF h1 h2, of "[''search returned 1 results'']"]
  have "\<exists>d lg''. fetch ''mock@@@2345'' [''search returned 1 results''] = (Inr d, lg'')
          \<and> doc_id d = ''mock@@@2345''"
    by simp
  with h1 show ?thesis
    by (rule conjI)
qed

text \<open>
  C3. A query that is empty or made of whitespace only gets the empty result
  list, as a normal return: no exception, and nothing is logged.
\<close>

theorem search_blank_query_empty_results:
  "\<forall>c \<in> set query. isspace c \<Longrightarrow> search hash str_title query lg = (Inr \<lparr>results = []\<rparr>, lg)"
  by (rule search_blank)

theorem search_blank_query_empty_results_witness:
  "list_all isspace ''   ''
   \<and> search (\<lambda>_. 7) ascii_title ''   '' [] = (Inr \<lparr>results = []\<rparr>, [])
   \<and> search (\<lambda>_. 7) ascii_title '''' [] = (Inr \<lparr>results = []\<rparr>, [])"
proof -
  have h: "\<forall>c \<in> set ''   ''. isspace c"
    by (simp add: isspace_def)
  have e: "\<forall>c \<in> set ''''. isspace c"
    by simp
  from h have "list_all isspace ''   ''"
    by (simp add: list_all_iff)
  then show ?thesis
    using search_blank_query_empty_results [OF h, of "\<lambda>_. 7" ascii_title "[]"]
      search_blank_query_empty_results [OF e, of "\<lambda>_. 7" ascii_title "[]"]
    by (intro conjI)
qed

text \<open>
  C2. An identifier under which no document is stored must make \<open>fetch\<close> fail
  (its docstring: "Raises: ValueError: If the specified ID is not found"). The
  body does not: it keeps no store and looks nothing up, and for "doc1", which
  nothing ever stored, it returns a document made up from the identifier.
\<close>

theorem fetch_unknown_id_returns_document:
  "fetch ''doc1'' [] =
     (Inr \<lparr>doc_id = ''doc1'',
           doc_title = ''Retrieved Document'',
           doc_text = ''Full document content for ID: doc1'',
           doc_url = ''https://platform.openai.com/storage/files/doc1'',
           doc_metadata = [(''source'', ''Mockup Press''), (''retrieved_by'', ''Somebody'')]\<rparr>,
      [''Fetching content for file ID: doc1'', ''Fetched file: doc1''])"
  by (simp add: fetch_def logger_info_def)

text \<open>
  C6, as stated, fails: equal queries do not always get equal responses. The
  identifier is made from \<open>hash(query)\<close>, and two runs of the server salt the
  hash differently: where \<open>hash("cats") % 10000\<close> is 5303 in one run and 9634 in
  another, the two calls of \<open>search("cats")\<close> return different identifiers.
\<close>

theorem search_two_processes_counterexample:
  "fst (search (\<lambda>_. 5303) ascii_title ''cats'' []) =
     Inr \<lparr>results = [\<lparr>sr_id = ''mock@@@5303'',
                        sr_title = ''News Article on Cats'',
                        sr_text = ''Full text about the topic: cats'',
                        sr_url = ''https://mockup-url.org/mock@@@5303''\<rparr>]\<rparr>
   \<and> fst (search (\<lambda>_. 9634) ascii_title ''cats'' []) =
     Inr \<lparr>results = [\<lparr>sr_id = ''mock@@@9634'',
                        sr_title = ''News Article on Cats'',
                        sr_text = ''Full text about the topic: cats'',
                        sr_url = ''https://mockup-url.org/mock@@@9634''\<rparr>]\<rparr>
   \<and> fst (search (\<lambda>_. 5303) ascii_title ''cats'' [])
       \<noteq> fst (search (\<lambda>_. 9634) ascii_title ''cats'' [])"
proof -
  have a: "fst (search (\<lambda>_. 5303) ascii_title ''cats'' []) =
     Inr \<lparr>results = [\<lparr>sr_id = ''mock@@@5303'',
                        sr_title = ''News Article on Cats'',
                        sr_text = ''Full text about the topic: cats'',
                        sr_url = ''https://mockup-url.org/mock@@@5303''\<rparr>]\<rparr>"
    by code_simp
  have b: "fst (search (\<lambda>_. 9634) ascii_title ''cats'' []) =
     Inr \<lparr>results = [\<lparr>sr_id = ''mock@@@9634'',
                        sr_title = ''News Article on Cats'',
                        sr_text = ''Full text about the topic: cats'',
                        sr_url = ''https://mockup-url.org/mock@@@9634''\<rparr>]\<rparr>"
    by code_simp
  have c: "fst (search (\<lambda>_. 5303) ascii_title ''cats'' [])
       \<noteq> fst (search (\<lambda>_. 9634) ascii_title ''cats'' [])"
    unfolding a b by simp
  from a b c show ?thesis
    by (intro conjI)
qed

text \<open>
  C6, amended. \<open>search\<close> is deterministic once the hash of the query is fixed:
  two calls with equal queries for which \<open>hash(query) % 10000\<close> is the same, as
  it is for any two calls during one run of the server, return equal responses,
  whatever was logged before each of them.
\<close>

theorem search_deterministic_given_hash:
  assumes "query1 = query2"
    and "hash1 query1 mod 10000 = hash2 query2 mod 10000"
  shows "fst (search hash1 str_title query1 lg1) = fst (search hash2 str_title query2 lg2)"
  using assms by (simp add: search_def Let_def)

theorem search_deterministic_given_hash_witness:
  "''cats'' = ''cats''
   \<and> (5303 :: int) mod 10000 = 15303 mod 10000
   \<and> fst (search (\<lambda>_. 5303) ascii_title ''cats'' []) =
     fst (search (\<lambda>_. 15303) ascii_title ''cats'' [''Fetched file: doc1''])"
proof -
  have h1: "''cats'' = ''cats''"
    by simp
  have h2: "(\<lambda>_. 5303 :: int) ''cats'' mod 10000 = (\<lambda>_. 15303 :: int) ''cats'' mod 10000"
    by simp
  have h2': "(5303 :: int) mod 10000 = 15303 mod 10000"
    by simp
  from search_deterministic_given_hash
    [OF h1 h2, of ascii_title "[]" "[''Fetched file: doc1'']"] h1 h2'
  show ?thesis
    by (intro conjI)
qed

text \<open>
  C7. \<open>fetch\<close> is idempotent on valid identifiers: for an identifier that is not
  empty, the call returns a document, the same call repeated right after it
  returns the same document, and so does the call made after any other history.
\<close>

theorem fetch_idempotent:
  assumes "ident \<noteq> []"
  shows "\<exists>d. fst (fetch ident lg) = Inr d
           \<and> fst (fetch ident (snd (fetch ident lg))) = Inr d
           \<and> fst (fetch ident lg') = Inr d"
  using fetch_nonempty [OF assms] by simp

theorem fetch_idempotent_witness:
  "''doc1'' \<noteq> [] \<and>
   (\<exists>d. fst (fetch ''doc1'' []) = Inr d
      \<and> fst (fetch ''doc1'' (snd (fetch ''doc1'' []))) = Inr d
      \<and> fst (fetch ''doc1'' [''search returned 1 results'']) = Inr d)"
proof -
  have h: "''doc1'' \<noteq> []"
    by simp
  from fetch_idempotent [OF h, of "[]" "[''search returned 1 results'']"] h
  show ?thesis
    by (intro conjI)
qed

text \<open>
  C8. For every identifier that is not empty, \<open>fetch\<close> returns a document with the
  five fields of the schema: \<open>id\<close> is the identifier given, \<open>title\<close> is the fixed
  title, \<open>text\<close> is the fixed prefix followed by the whole identifier (nothing is
  cut: its length is 30 plus the length of the identifier), \<open>url\<close> is the fixed
  prefix followed by the identifier, and \<open>metadata\<close> is the fixed two-entry mapping.
\<close>

theorem fetch_response_schema:
  assumes "ident \<noteq> []"
  shows "\<exists>d. fst (fetch ident lg) = Inr d
           \<and> doc_id d = ident
           \<and> doc_title d = ''Retrieved Document''
           \<and> doc_text d = ''Full document content for ID: '' @ ident
           \<and> length (doc_text d) = 30 + length ident
           \<and> doc_url d = ''https://platform.openai.com/storage/files/'' @ ident
           \<and> doc_metadata d = [(''source'', ''Mockup Press''), (''retrieved_by'', ''Somebody'')]"
  using fetch_nonempty [OF assms, of lg] by simp

theorem fetch_response_schema_witness:
  "''file-abc'' \<noteq> [] \<and>
   (\<exists>d. fst (fetch ''file-abc'' []) = Inr d
      \<and> doc_id d = ''file-abc''
      \<and> doc_title d = ''Retrieved Document''
      \<and> doc_text d = ''Full document content for ID: file-abc''
      \<and> length (doc_text d) = 38
      \<and> doc_url d = ''https://platform.openai.com/storage/files/file-abc''
      \<and> doc_metadata d = [(''source'', ''Mockup Press''), (''retrieved_by'', ''Somebody'')])"
proof -
  have h: "''file-abc'' \<noteq> []"
    by simp
  from fetch_response_schema [OF h, of "[]"]
  have "\<exists>d. fst (fetch ''file-abc'' []) = Inr d
      \<and> doc_id d = ''file-abc''
      \<and> doc_title d = ''Retrieved Document''
      \<and> doc_text d = ''Full document content for ID: file-abc''
      \<and> length (doc_text d) = 38
      \<and> doc_url d = ''https://platform.openai.com/storage/files/file-abc''
      \<and> doc_metadata d = [(''source'', ''Mockup Press''), (''retrieved_by'', ''Somebody'')]"
    by simp
  with h show ?thesis
    by (rule conjI)
qed

text \<open>
  C9. For a query that is not blank, \<open>search\<close> returns exactly one result. Its
  \<open>id\<close> is "mock@@@" followed by the decimal digits of \<open>hash(query) % 10000\<close>, a
  number from 0 to 9999, and its \<open>url\<close> is "https://mockup-url.org/" followed by
  that \<open>id\<close>.
\<close>

theorem search_single_mock_result:
  assumes "strip query \<noteq> []"
  shows "\<exists>r lg' n. search hash str_title query lg = (Inr \<lparr>results = [r]\<rparr>, lg')
           \<and> n = hash query mod 10000 \<and> 0 \<le> n \<and> n \<le> 9999
           \<and> sr_id r = ''mock@@@'' @ str_int n
           \<and> list_all (\<lambda>c. c \<in> set ''0123456789'') (str_int n)
           \<and> sr_url r = ''https://mockup-url.org/'' @ sr_id r"
proof -
  let ?n = "hash query mod 10000"
  have lo: "0 \<le> ?n"
    by simp
  have hi: "?n \<le> 9999"
    using pos_mod_bound [of 10000 "hash query"] by simp
  from search_nonblank [OF assms, of hash str_title lg] lo hi str_int_decimal [OF lo]
  show ?thesis
    by simp
qed

theorem search_single_mock_result_witness:
  "strip '' deep research '' \<noteq> [] \<and>
   (\<exists>r lg' n. search (\<lambda>_. - 1) ascii_title '' deep research '' [] = (Inr \<lparr>results = [r]\<rparr>, lg')
      \<and> n = (- 1) mod 10000 \<and> 0 \<le> n \<and> n \<le> 9999
      \<and> sr_id r = ''mock@@@'' @ str_int n
      \<and> list_all (\<lambda>c. c \<in> set ''0123456789'') (str_int n)
      \<and> sr_url r = ''https://mockup-url.org/'' @ sr_id r)"
proof -
  have h: "strip '' deep research '' \<noteq> []"
    by code_simp
  from search_single_mock_result [OF h, of "\<lambda>_. - 1" ascii_title "[]"] h
  show ?thesis
    by (intro conjI)
qed

text \<open>
  C10. \<open>fetch\<close> does not trim its argument: an identifier that is not empty but
  made of whitespace only is accepted, and the document returned carries it
  unchanged, where \<open>search\<close> takes the same string for a blank query.
\<close>

theorem fetch_accepts_whitespace_id:
  assumes "ident \<noteq> []" and "\<forall>c \<in> set ident. isspace c"
  shows "(\<exists>d lg'. fetch ident lg = (Inr d, lg') \<and> doc_id d = ident
            \<and> doc_text d = ''Full document content for ID: '' @ ident)
         \<and> search hash str_title ident lg = (Inr \<lparr>results = []\<rparr>, lg)"
  using fetch_nonempty [OF assms(1), of lg] search_blank [OF assms(2), of hash str_title lg] by simp

theorem fetch_accepts_whitespace_id_witness:
  "'' '' \<noteq> [] \<and> list_all isspace '' '' \<and>
   (\<exists>d lg'. fetch '' '' [] = (Inr d, lg') \<and> doc_id d = '' ''
      \<and> doc_text d = ''Full document content for ID:  '')
   \<and> search (\<lambda>_. 7) ascii_title '' '' [] = (Inr \<lparr>results = []\<rparr>, [])"
proof -
  have h1: "'' '' \<noteq> []"
    by simp
  have h2: "\<forall>c \<in> set '' ''. isspace c"
    by (simp add: isspace_def)
  from h2 have h2': "list_all isspace '' ''"
    by (simp add: list_all_iff)
  from fetch_accepts_whitespace_id [OF h1 h2, of "[]" "\<lambda>_. 7" ascii_title]
  have "(\<exists>d lg'. fetch '' '' [] = (Inr d, lg') \<and> doc_id d = '' ''
      \<and> doc_text d = ''Full document content for ID:  '')
   \<and> search (\<lambda>_. 7) ascii_title '' '' [] = (Inr \<lparr>results = []\<rparr>, [])"
    by simp
  with h1 h2' show ?thesis
    by (intro conjI) simp_all
qed

end
